theory Spec2Isabelle
  imports
    Main
    "HOL-Library.Char_ord"
    "HOL-Library.List_Lexorder"
    "HOL-Library.Product_Lexorder"
begin

section \<open>Severity labels\<close>

text \<open>
  The two orchestrators, \<^verbatim>\<open>train_severity_model.main\<close> and
  \<^verbatim>\<open>evaluate_model.evaluate\<close>, each carry their own copy of the rule that turns the
  defect tags of one element into a severity label.  The tags come out of two dictionaries
  keyed by element id, read with \<^verbatim>\<open>d.get(eid, [])\<close>, and are tested with Python's
  \<^verbatim>\<open>in\<close>.  A dictionary is a map, its values are lists of tag names, and the label is
  the Python integer appended to the label list.
\<close>

type_synonym tag = string

type_synonym 'e tagdict = "'e \<rightharpoonup> tag list"

text \<open>\<^verbatim>\<open>d.get(k, default)\<close>: the default where the key is absent, never a KeyError.\<close>

definition dict_get :: "('k \<rightharpoonup> 'v) \<Rightarrow> 'k \<Rightarrow> 'v \<Rightarrow> 'v" where
  "dict_get d k dflt = (case d k of None \<Rightarrow> dflt | Some v \<Rightarrow> v)"

text \<open>Lines 91 to 100 of \<^verbatim>\<open>train_severity_model.py\<close>.\<close>

definition train_label :: "'e tagdict \<Rightarrow> 'e tagdict \<Rightarrow> 'e \<Rightarrow> int" where
  "train_label intrinsic_errors cad_errors eid =
     (if ''BAD_ASPECT_RATIO'' \<in> set (dict_get intrinsic_errors eid [])
         \<or> ''HIGH_SKEWNESS'' \<in> set (dict_get intrinsic_errors eid [])
         \<or> ''CAD_DEVIATION_HIGH'' \<in> set (dict_get cad_errors eid [])
      then 2
      else if ''BAD_TRANSITION'' \<in> set (dict_get intrinsic_errors eid [])
      then 1
      else 0)"

text \<open>Lines 57 to 66 of \<^verbatim>\<open>evaluate_model.py\<close>.\<close>

definition eval_label :: "'e tagdict \<Rightarrow> 'e tagdict \<Rightarrow> 'e \<Rightarrow> int" where
  "eval_label intrinsic_errors cad_errors eid =
     (if ''BAD_ASPECT_RATIO'' \<in> set (dict_get intrinsic_errors eid [])
         \<or> ''HIGH_SKEWNESS'' \<in> set (dict_get intrinsic_errors eid [])
         \<or> ''CAD_DEVIATION_HIGH'' \<in> set (dict_get cad_errors eid [])
      then 2
      else if ''BAD_TRANSITION'' \<in> set (dict_get intrinsic_errors eid [])
      then 1
      else 0)"

text \<open>
  The policy in the words of the specification, section 4.1: a function of two tag sets
  into the three severity classes, with their integer codes.
\<close>

datatype severity = LOW | MEDIUM | HIGH

fun severity_code :: "severity \<Rightarrow> int" where
  "severity_code LOW = 0"
| "severity_code MEDIUM = 1"
| "severity_code HIGH = 2"

definition spec_policy :: "tag set \<Rightarrow> tag set \<Rightarrow> severity" where
  "spec_policy intrinsicTags cadTags =
     (if ''BAD_ASPECT_RATIO'' \<in> intrinsicTags then HIGH
      else if ''HIGH_SKEWNESS'' \<in> intrinsicTags then HIGH
      else if ''CAD_DEVIATION_HIGH'' \<in> cadTags then HIGH
      else if ''BAD_TRANSITION'' \<in> intrinsicTags then MEDIUM
      else LOW)"

text \<open>The tag set an element has in a dictionary; empty where it has no entry.\<close>

definition tags_of :: "'e tagdict \<Rightarrow> 'e \<Rightarrow> tag set" where
  "tags_of d eid = set (dict_get d eid [])"

section \<open>Files and mesh discovery\<close>

text \<open>
  A \<^verbatim>\<open>pathlib.Path\<close> is the list of its parts; a path that does not start with the
  part \<^verbatim>\<open>/\<close> (or \<^verbatim>\<open>//\<close>) is relative to the working directory.  Two paths
  compare as their part lists do, part by part and character by character.  A
  character is an Isabelle \<^typ>\<open>char\<close>, a code point below 256; among these the class
  \<^verbatim>\<open>\d\<close> of Python's \<^verbatim>\<open>re\<close> is exactly \<^verbatim>\<open>0\<close> to \<^verbatim>\<open>9\<close>.

  The file system is the list of the paths that exist, each with what is there, in the order
  in which a directory scan yields them.  The content of a table file is for the mesh loader
  alone; a model artifact holds the model that was dumped into it.
\<close>

type_synonym path = "string list"

datatype ('t, 'm) fobj = Dir | Table 't | Pickle 'm

type_synonym ('t, 'm) fs = "(path \<times> ('t, 'm) fobj) list"

definition path_exists :: "('t, 'm) fs \<Rightarrow> path \<Rightarrow> bool" where
  "path_exists d p = (map_of d p \<noteq> None)"

definition is_dir :: "('t, 'm) fs \<Rightarrow> path \<Rightarrow> bool" where
  "is_dir d p = (map_of d p = Some Dir)"

text \<open>
  \<^verbatim>\<open>p / s\<close> for a string \<^verbatim>\<open>s\<close>, as pathlib parses it on POSIX: the string is split at
  slashes, empty parts and the part \<^verbatim>\<open>.\<close> are dropped, and a string that starts with a
  slash is absolute and replaces \<^verbatim>\<open>p\<close>; its root is \<^verbatim>\<open>//\<close> where it starts with
  exactly two slashes.  The part \<^verbatim>\<open>..\<close> is kept, as pathlib keeps it.  The file system
  lists the paths under the parts by which they are reached; it does not follow
  \<^verbatim>\<open>..\<close> or symbolic links.
\<close>

fun split_slash :: "string \<Rightarrow> string list" where
  "split_slash [] = [[]]"
| "split_slash (c # cs) =
     (if c = CHR ''/'' then [] # split_slash cs
      else (case split_slash cs of [] \<Rightarrow> [[c]] | x # xs \<Rightarrow> (c # x) # xs))"

definition path_parts :: "string \<Rightarrow> string list" where
  "path_parts s = filter (\<lambda>x. x \<noteq> [] \<and> x \<noteq> ''.'') (split_slash s)"

definition joinpath :: "path \<Rightarrow> string \<Rightarrow> path" where
  "joinpath p s =
     (if take 1 s = ''/''
      then (if take 2 s = ''//'' \<and> take 3 s \<noteq> ''///'' then ''//'' else ''/'') # path_parts s
      else p @ path_parts s)"

text \<open>\<^verbatim>\<open>p.name\<close>, the last part.\<close>

definition path_name :: "path \<Rightarrow> string" where
  "path_name p = (if p = [] then [] else last p)"

text \<open>
  The children of a directory, in the order of the scan; each is the directory's path with
  the name of the entry as one more part.
\<close>

definition scandir :: "('t, 'm) fs \<Rightarrow> path \<Rightarrow> path list" where
  "scandir d root = filter (\<lambda>p. p \<noteq> [] \<and> butlast p = root) (map fst d)"

text \<open>
  \<^verbatim>\<open>vehicle_root.glob("first_mesh_*_NODE.csv")\<close> yields the children of the directory
  whose name is \<^verbatim>\<open>first_mesh_\<close>, then anything, then \<^verbatim>\<open>_NODE.csv\<close>, and nothing
  where the root is not a directory.
\<close>

fun strip_prefix :: "'a list \<Rightarrow> 'a list \<Rightarrow> 'a list option" where
  "strip_prefix [] ys = Some ys"
| "strip_prefix (x # xs) [] = None"
| "strip_prefix (x # xs) (y # ys) = (if x = y then strip_prefix xs ys else None)"

definition ends_with :: "'a list \<Rightarrow> 'a list \<Rightarrow> bool" where
  "ends_with s xs = (length s \<le> length xs \<and> drop (length xs - length s) xs = s)"

definition fnmatch_node :: "string \<Rightarrow> bool" where
  "fnmatch_node name =
     (case strip_prefix ''first_mesh_'' name of
        None \<Rightarrow> False
      | Some r \<Rightarrow> ends_with ''_NODE.csv'' r)"

definition glob_node :: "('t, 'm) fs \<Rightarrow> path \<Rightarrow> path list" where
  "glob_node d root =
     (if is_dir d root then filter (\<lambda>p. fnmatch_node (path_name p)) (scandir d root) else [])"

text \<open>
  \<^verbatim>\<open>re.search(r"first_mesh_(\d+)_NODE.csv", name)\<close>, line 31: the leftmost place of the
  name where the pattern matches, and there the group of digits.  At one place the pattern
  reads \<^verbatim>\<open>first_mesh_\<close>, then the longest run of digits, which must not be empty (a
  shorter run would be followed by a digit, not by the underscore), then \<^verbatim>\<open>_NODE\<close>,
  then any one character but a newline, for the dot is not escaped, then \<^verbatim>\<open>csv\<close>.
  The pattern is not anchored: it may match in the middle of a name, and text may follow it.
\<close>

definition is_digit :: "char \<Rightarrow> bool" where
  "is_digit c = (c \<in> set ''0123456789'')"

definition match_here :: "string \<Rightarrow> string option" where
  "match_here s =
     (case strip_prefix ''first_mesh_'' s of
        None \<Rightarrow> None
      | Some r \<Rightarrow>
          if takeWhile is_digit r = [] then None
          else (case strip_prefix ''_NODE'' (dropWhile is_digit r) of
                  None \<Rightarrow> None
                | Some [] \<Rightarrow> None
                | Some (c # t) \<Rightarrow>
                    if c \<noteq> CHR 0x0A \<and> strip_prefix ''csv'' t \<noteq> None
                    then Some (takeWhile is_digit r) else None))"

fun re_search :: "string \<Rightarrow> string option" where
  "re_search [] = match_here []"
| "re_search (c # cs) =
     (case match_here (c # cs) of Some idx \<Rightarrow> Some idx | None \<Rightarrow> re_search cs)"

text \<open>\<^verbatim>\<open>find_first_meshes\<close>, lines 24 to 41: the loop over the glob, then \<^verbatim>\<open>sorted\<close>.\<close>

fun first_mesh_loop ::
  "('t, 'm) fs \<Rightarrow> path \<Rightarrow> path list \<Rightarrow> (path \<times> path) list \<Rightarrow> (path \<times> path) list" where
  "first_mesh_loop d vehicle_root [] pairs = pairs"
| "first_mesh_loop d vehicle_root (node_csv # rest) pairs =
     (case re_search (path_name node_csv) of
        None \<Rightarrow> first_mesh_loop d vehicle_root rest pairs
      | Some idx \<Rightarrow>
          (let elem_csv = joinpath vehicle_root (''first_mesh_'' @ idx @ ''_ELEMENT.csv'')
           in if path_exists d elem_csv
              then first_mesh_loop d vehicle_root rest (pairs @ [(node_csv, elem_csv)])
              else first_mesh_loop d vehicle_root rest pairs))"

definition find_first_meshes :: "('t, 'm) fs \<Rightarrow> path \<Rightarrow> (path \<times> path) list" where
  "find_first_meshes d vehicle_root =
     sort (first_mesh_loop d vehicle_root (glob_node d vehicle_root) [])"


section \<open>Collaborators, training and evaluation\<close>

text \<open>
  A run reads and writes files and calls the collaborators, which live outside this
  repository.  The world is the file system together with the trace of the calls that touch
  files or models, in the order in which they were made.  Progress messages are not modelled.
\<close>

datatype event = LoadMesh path path | LoadModel path | Fit | Predict | MkDir path | Dump path

record ('t, 'm) world =
  disk :: "('t, 'm) fs"
  trace :: "event list"

text \<open>
  A mesh: its elements in their own iteration order, the rest of what the loader read, and
  the neighbour annotation that the orchestrators attach.
\<close>

record ('e, 'd, 'n) mesh =
  elements :: "'e list"
  geometry :: 'd
  element_neighbors :: "'n option"

text \<open>The keyword arguments of \<^verbatim>\<open>RandomForestClassifier\<close>, lines 109 to 114.\<close>

record rf_params =
  n_estimators :: int
  max_depth :: int
  n_jobs :: int
  random_state :: int

definition train_params :: rf_params where
  "train_params = \<lparr>n_estimators = 200, max_depth = 20, n_jobs = 1, random_state = 42\<rparr>"

text \<open>
  The exceptions: the three that the orchestrators raise themselves, what a collaborator or
  a library call raised, and a failure of the operating system while the model is persisted.
\<close>

datatype error =
    VehicleFolderNotFound path
  | NoFirstMeshes
  | ModelNotFound path
  | Raised string
  | OSError string

text \<open>
  The collaborators are parameters: each returns its result or the message of the exception
  it raised.  The mesh loader reads the file system; no collaborator writes to it.  The
  classifier is the library's; its
  \<^verbatim>\<open>fit\<close> takes the keyword arguments, the feature array and the labels, and returns the
  fitted model, so that it is a function of these alone, as the specification assumes of a
  learner with a fixed seed.
\<close>

record ('t, 'm, 'e, 'd, 'n, 'q, 'r, 'f, 'a) collab =
  load_mesh :: "('t, 'm) fs \<Rightarrow> path \<Rightarrow> path \<Rightarrow> string + ('e, 'd, 'n) mesh"
  build_element_neighbors :: "('e, 'd, 'n) mesh \<Rightarrow> string + 'n"
  compute_intrinsic_metrics :: "('e, 'd, 'n) mesh \<Rightarrow> string + 'q"
  detect_intrinsic_errors :: "('e, 'd, 'n) mesh \<Rightarrow> 'q \<Rightarrow> 'n option \<Rightarrow> string + 'e tagdict"
  compute_mesh_to_cad_distances :: "('e, 'd, 'n) mesh \<Rightarrow> ('e, 'd, 'n) mesh \<Rightarrow> string + 'r"
  detect_cad_related_errors :: "('e, 'd, 'n) mesh \<Rightarrow> 'r \<Rightarrow> string + 'e tagdict"
  build_feature_vector ::
    "'e \<Rightarrow> ('e, 'd, 'n) mesh \<Rightarrow> 'q \<Rightarrow> 'e tagdict \<Rightarrow> 'e tagdict \<Rightarrow> string + 'f"
  np_asarray :: "'f list \<Rightarrow> string + 'a"
  fit :: "rf_params \<Rightarrow> 'a \<Rightarrow> int list \<Rightarrow> string + 'm"
  predict :: "'m \<Rightarrow> 'a \<Rightarrow> string + int list"

text \<open>A call of a collaborator: its exception ends the run.\<close>

definition call :: "string + 'v \<Rightarrow> ('v \<Rightarrow> error + 'b) \<Rightarrow> error + 'b" where
  "call r k = (case r of Inl x \<Rightarrow> Inl (Raised x) | Inr v \<Rightarrow> k v)"

definition load_mesh_io ::
  "('t, 'm, 'e, 'd, 'n, 'q, 'r, 'f, 'a) collab \<Rightarrow> path \<Rightarrow> path \<Rightarrow> ('t, 'm) world
   \<Rightarrow> (error + ('e, 'd, 'n) mesh) \<times> ('t, 'm) world" where
  "load_mesh_io c node_csv elem_csv w =
     (call (load_mesh c (disk w) node_csv elem_csv) Inr,
      w\<lparr>trace := trace w @ [LoadMesh node_csv elem_csv]\<rparr>)"

text \<open>
  Lines 73 to 81 of \<^verbatim>\<open>train_severity_model.py\<close> and lines 41 to 45 of
  \<^verbatim>\<open>evaluate_model.py\<close>, the same sequence of calls: the neighbour annotation is
  attached to the mesh, then metrics, intrinsic tags, distances to the CAD mesh and CAD tags.
\<close>

definition quality_tags ::
  "('t, 'm, 'e, 'd, 'n, 'q, 'r, 'f, 'a) collab \<Rightarrow> ('e, 'd, 'n) mesh \<Rightarrow> ('e, 'd, 'n) mesh
   \<Rightarrow> error + (('e, 'd, 'n) mesh \<times> 'q \<times> 'e tagdict \<times> 'e tagdict)" where
  "quality_tags c cad loaded =
     call (build_element_neighbors c loaded) (\<lambda>neighbors.
       let mesh = loaded\<lparr>element_neighbors := Some neighbors\<rparr> in
       call (compute_intrinsic_metrics c mesh) (\<lambda>metrics.
       call (detect_intrinsic_errors c mesh metrics (element_neighbors mesh)) (\<lambda>intrinsic_errors.
       call (compute_mesh_to_cad_distances c mesh cad) (\<lambda>distances.
       call (detect_cad_related_errors c mesh distances) (\<lambda>cad_errors.
       Inr (mesh, metrics, intrinsic_errors, cad_errors))))))"

text \<open>Lines 83 to 100 of \<^verbatim>\<open>train_severity_model.py\<close>, the loop over the elements.\<close>

fun train_element_loop ::
  "('t, 'm, 'e, 'd, 'n, 'q, 'r, 'f, 'a) collab \<Rightarrow> ('e, 'd, 'n) mesh \<Rightarrow> 'q
   \<Rightarrow> 'e tagdict \<Rightarrow> 'e tagdict \<Rightarrow> 'e list \<Rightarrow> 'f list \<times> int list
   \<Rightarrow> error + 'f list \<times> int list" where
  "train_element_loop c mesh metrics intrinsic_errors cad_errors [] (X_all, y_all) =
     Inr (X_all, y_all)"
| "train_element_loop c mesh metrics intrinsic_errors cad_errors (eid # rest) (X_all, y_all) =
     call (build_feature_vector c eid mesh metrics intrinsic_errors cad_errors) (\<lambda>features.
       train_element_loop c mesh metrics intrinsic_errors cad_errors rest
         (X_all @ [features], y_all @ [train_label intrinsic_errors cad_errors eid]))"

text \<open>Lines 50 to 66 of \<^verbatim>\<open>evaluate_model.py\<close>.\<close>

fun eval_element_loop ::
  "('t, 'm, 'e, 'd, 'n, 'q, 'r, 'f, 'a) collab \<Rightarrow> ('e, 'd, 'n) mesh \<Rightarrow> 'q
   \<Rightarrow> 'e tagdict \<Rightarrow> 'e tagdict \<Rightarrow> 'e list \<Rightarrow> 'f list \<times> int list
   \<Rightarrow> error + 'f list \<times> int list" where
  "eval_element_loop c mesh metrics intrinsic_errors cad_errors [] (X, y_true) =
     Inr (X, y_true)"
| "eval_element_loop c mesh metrics intrinsic_errors cad_errors (eid # rest) (X, y_true) =
     call (build_feature_vector c eid mesh metrics intrinsic_errors cad_errors) (\<lambda>feat.
       eval_element_loop c mesh metrics intrinsic_errors cad_errors rest
         (X @ [feat], y_true @ [eval_label intrinsic_errors cad_errors eid]))"

text \<open>Lines 69 to 100 of \<^verbatim>\<open>train_severity_model.py\<close>, the loop over the mesh pairs.\<close>

fun mesh_loop ::
  "('t, 'm, 'e, 'd, 'n, 'q, 'r, 'f, 'a) collab \<Rightarrow> ('e, 'd, 'n) mesh
   \<Rightarrow> (path \<times> path) list \<Rightarrow> 'f list \<times> int list \<Rightarrow> ('t, 'm) world
   \<Rightarrow> (error + 'f list \<times> int list) \<times> ('t, 'm) world" where
  "mesh_loop c cad [] acc w = (Inr acc, w)"
| "mesh_loop c cad ((node_csv, elem_csv) # rest) acc w =
     (case load_mesh_io c node_csv elem_csv w of
        (Inl e, w1) \<Rightarrow> (Inl e, w1)
      | (Inr loaded, w1) \<Rightarrow>
          (case quality_tags c cad loaded of
             Inl e \<Rightarrow> (Inl e, w1)
           | Inr (mesh, metrics, intrinsic_errors, cad_errors) \<Rightarrow>
               (case train_element_loop c mesh metrics intrinsic_errors cad_errors
                       (elements mesh) acc of
                  Inl e \<Rightarrow> (Inl e, w1)
                | Inr acc' \<Rightarrow> mesh_loop c cad rest acc' w1)))"

text \<open>
  \<^verbatim>\<open>main\<close>, lines 48 to 104: everything up to the two arrays.  The labels are the
  integers 0, 1 and 2, which the conversion to 64-bit integers leaves as they are.
\<close>

definition build_training_set ::
  "('t, 'm, 'e, 'd, 'n, 'q, 'r, 'f, 'a) collab \<Rightarrow> string \<Rightarrow> ('t, 'm) world
   \<Rightarrow> (error + 'a \<times> int list) \<times> ('t, 'm) world" where
  "build_training_set c vehicle_id w =
     (let vehicle_root = joinpath [''data_2''] vehicle_id in
      if \<not> path_exists (disk w) vehicle_root
      then (Inl (VehicleFolderNotFound vehicle_root), w)
      else
        (case load_mesh_io c (joinpath vehicle_root ''cad_NODE.csv'')
                (joinpath vehicle_root ''cad_ELEMENT.csv'') w of
           (Inl e, w1) \<Rightarrow> (Inl e, w1)
         | (Inr cad, w1) \<Rightarrow>
             (let mesh_pairs = find_first_meshes (disk w1) vehicle_root in
              if mesh_pairs = [] then (Inl NoFirstMeshes, w1)
              else
                (case mesh_loop c cad mesh_pairs ([], []) w1 of
                   (Inl e, w2) \<Rightarrow> (Inl e, w2)
                 | (Inr (X_all, y_all), w2) \<Rightarrow>
                     (call (np_asarray c X_all) (\<lambda>X. Inr (X, y_all)), w2)))))"

text \<open>
  \<^verbatim>\<open>out_dir.mkdir(parents=True, exist_ok=True)\<close>: nothing to do where the directory
  exists, an error where something else has its name, otherwise the parents first and then
  the directory.  The path is taken from its last part backwards.
\<close>

fun mkdir_rev :: "('t, 'm) fs \<Rightarrow> path \<Rightarrow> error + ('t, 'm) fs" where
  "mkdir_rev d [] = Inr d"
| "mkdir_rev d (name # parent_rev) =
     (case map_of d (rev (name # parent_rev)) of
        Some Dir \<Rightarrow> Inr d
      | Some _ \<Rightarrow> Inl (OSError ''mkdir'')
      | None \<Rightarrow>
          (case mkdir_rev d parent_rev of
             Inl e \<Rightarrow> Inl e
           | Inr d' \<Rightarrow> Inr (d' @ [(rev (name # parent_rev), Dir)])))"

definition mkdir_parents :: "('t, 'm) fs \<Rightarrow> path \<Rightarrow> error + ('t, 'm) fs" where
  "mkdir_parents d p = mkdir_rev d (rev p)"

text \<open>
  \<^verbatim>\<open>joblib.dump\<close> writes the file, over what was there; \<^verbatim>\<open>joblib.load\<close> reads a
  model back from an artifact.
\<close>

definition joblib_dump :: "'m \<Rightarrow> path \<Rightarrow> ('t, 'm) fs \<Rightarrow> error + ('t, 'm) fs" where
  "joblib_dump model p d =
     (case map_of d p of
        Some Dir \<Rightarrow> Inl (OSError ''dump'')
      | Some _ \<Rightarrow> Inr (map (\<lambda>(q, x). if q = p then (q, Pickle model) else (q, x)) d)
      | None \<Rightarrow> Inr (d @ [(p, Pickle model)]))"

definition joblib_load :: "path \<Rightarrow> ('t, 'm) fs \<Rightarrow> error + 'm" where
  "joblib_load p d =
     (case map_of d p of
        Some (Pickle model) \<Rightarrow> Inr model
      | _ \<Rightarrow> Inl (Raised ''load''))"

text \<open>\<^verbatim>\<open>main\<close>, lines 45 to 124: the arrays, then the fit, then the artifact.\<close>

definition main ::
  "('t, 'm, 'e, 'd, 'n, 'q, 'r, 'f, 'a) collab \<Rightarrow> string \<Rightarrow> ('t, 'm) world
   \<Rightarrow> (error + unit) \<times> ('t, 'm) world" where
  "main c vehicle_id w =
     (case build_training_set c vehicle_id w of
        (Inl e, w2) \<Rightarrow> (Inl e, w2)
      | (Inr (X, y), w2) \<Rightarrow>
          (let w3 = w2\<lparr>trace := trace w2 @ [Fit]\<rparr> in
           case call (fit c train_params X y) Inr of
             Inl e \<Rightarrow> (Inl e, w3)
           | Inr model \<Rightarrow>
               (let out_dir = joinpath [''models''] vehicle_id;
                    w4 = w3\<lparr>trace := trace w3 @ [MkDir out_dir]\<rparr>
                in case mkdir_parents (disk w4) out_dir of
                     Inl e \<Rightarrow> (Inl e, w4)
                   | Inr d5 \<Rightarrow>
                       (let model_path = joinpath out_dir ''severity_model.pkl'';
                            w5 = w4\<lparr>disk := d5, trace := trace w4 @ [Dump model_path]\<rparr>
                        in case joblib_dump model model_path (disk w5) of
                             Inl e \<Rightarrow> (Inl e, w5)
                           | Inr d6 \<Rightarrow> (Inr (), w5\<lparr>disk := d6\<rparr>)))))"

text \<open>
  \<^verbatim>\<open>evaluate\<close>, lines 16 to 75.  The result is the pair of label lists that is handed to
  the two report functions.
\<close>

definition evaluate ::
  "('t, 'm, 'e, 'd, 'n, 'q, 'r, 'f, 'a) collab \<Rightarrow> string \<Rightarrow> string \<Rightarrow> ('t, 'm) world
   \<Rightarrow> (error + int list \<times> int list) \<times> ('t, 'm) world" where
  "evaluate c vehicle_id mesh_idx w =
     (let vehicle_root = joinpath [''data_2''] vehicle_id;
          model_path = joinpath (joinpath [''models''] vehicle_id) ''severity_model.pkl''
      in if \<not> path_exists (disk w) model_path then (Inl (ModelNotFound model_path), w)
         else
           (let w1 = w\<lparr>trace := trace w @ [LoadModel model_path]\<rparr> in
            case joblib_load model_path (disk w1) of
              Inl e \<Rightarrow> (Inl e, w1)
            | Inr model \<Rightarrow>
                (case load_mesh_io c (joinpath vehicle_root ''cad_NODE.csv'')
                        (joinpath vehicle_root ''cad_ELEMENT.csv'') w1 of
                   (Inl e, w2) \<Rightarrow> (Inl e, w2)
                 | (Inr cad, w2) \<Rightarrow>
                     (case load_mesh_io c
                             (joinpath vehicle_root (''first_mesh_'' @ mesh_idx @ ''_NODE.csv''))
                             (joinpath vehicle_root (''first_mesh_'' @ mesh_idx @ ''_ELEMENT.csv''))
                             w2 of
                        (Inl e, w3) \<Rightarrow> (Inl e, w3)
                      | (Inr loaded, w3) \<Rightarrow>
                          (case quality_tags c cad loaded of
                             Inl e \<Rightarrow> (Inl e, w3)
                           | Inr (mesh, metrics, intrinsic_errors, cad_errors) \<Rightarrow>
                               (case eval_element_loop c mesh metrics intrinsic_errors cad_errors
                                       (elements mesh) ([], []) of
                                  Inl e \<Rightarrow> (Inl e, w3)
                                | Inr (X_rows, y_true) \<Rightarrow>
                                    (case call (np_asarray c X_rows) Inr of
                                       Inl e \<Rightarrow> (Inl e, w3)
                                     | Inr X \<Rightarrow>
                                         (let w4 = w3\<lparr>trace := trace w3 @ [Predict]\<rparr> in
                                          case call (predict c model X) Inr of
                                            Inl e \<Rightarrow> (Inl e, w4)
                                          | Inr y_pred \<Rightarrow> (Inr (y_true, y_pred), w4)))))))))"

text \<open>
  The dataset of one mesh in the words of the specification, section 4.2: for every element
  of the mesh, in the mesh's own order, the element, the feature vector requested for it
  (or the failure of that request) and its severity label, side by side.
\<close>

definition dataset_rows ::
  "('t, 'm, 'e, 'd, 'n, 'q, 'r, 'f, 'a) collab
   \<Rightarrow> ('e, 'd, 'n) mesh \<times> 'q \<times> 'e tagdict \<times> 'e tagdict
   \<Rightarrow> ('e \<times> (string + 'f) \<times> int) list" where
  "dataset_rows c t =
     (case t of (mesh, metrics, intrinsicTags, cadTags) \<Rightarrow>
        map (\<lambda>eid. (eid,
                    build_feature_vector c eid mesh metrics intrinsicTags cadTags,
                    train_label intrinsicTags cadTags eid))
          (elements mesh))"

text \<open>
  A small world for running the definitions: vehicle \<^verbatim>\<open>01_\<close> with its CAD tables and
  three mesh variants, two with a numeric index and one with the index \<^verbatim>\<open>a\<close>, and
  vehicle \<^verbatim>\<open>02_\<close> with its CAD tables and no mesh variant.  A table
  holds the element ids of its mesh, the feature vector of an element is ten times its id,
  and the fitted model is the data it was fitted on.
\<close>

definition demo_fs :: "(nat list, nat list \<times> int list) fs" where
  "demo_fs =
    [([''data_2''], Dir),
     ([''data_2'', ''01_''], Dir),
     ([''data_2'', ''01_'', ''cad_NODE.csv''], Table []),
     ([''data_2'', ''01_'', ''cad_ELEMENT.csv''], Table [0]),
     ([''data_2'', ''01_'', ''first_mesh_2_NODE.csv''], Table []),
     ([''data_2'', ''01_'', ''first_mesh_a_NODE.csv''], Table []),
     ([''data_2'', ''01_'', ''first_mesh_a_ELEMENT.csv''], Table [9]),
     ([''data_2'', ''01_'', ''first_mesh_2_ELEMENT.csv''], Table [4, 5, 6]),
     ([''data_2'', ''01_'', ''first_mesh_1_ELEMENT.csv''], Table [1, 2]),
     ([''data_2'', ''01_'', ''first_mesh_1_NODE.csv''], Table []),
     ([''data_2'', ''02_''], Dir),
     ([''data_2'', ''02_'', ''cad_NODE.csv''], Table []),
     ([''data_2'', ''02_'', ''cad_ELEMENT.csv''], Table [0])]"

definition demo_collab ::
  "(nat list, nat list \<times> int list, nat, unit, unit, unit, unit, nat, nat list) collab" where
  "demo_collab =
     \<lparr>load_mesh = (\<lambda>d node_csv elem_csv.
         case map_of d elem_csv of
           Some (Table es) \<Rightarrow> Inr \<lparr>elements = es, geometry = (), element_neighbors = None\<rparr>
         | _ \<Rightarrow> Inl ''unreadable''),
      build_element_neighbors = (\<lambda>m. Inr ()),
      compute_intrinsic_metrics = (\<lambda>m. Inr ()),
      detect_intrinsic_errors = (\<lambda>m q n.
         Inr [1 \<mapsto> [''BAD_TRANSITION''], 4 \<mapsto> [''HIGH_SKEWNESS'', ''BAD_TRANSITION''],
              6 \<mapsto> []]),
      compute_mesh_to_cad_distances = (\<lambda>m cad. Inr ()),
      detect_cad_related_errors = (\<lambda>m r. Inr [5 \<mapsto> [''CAD_DEVIATION_HIGH'']]),
      build_feature_vector = (\<lambda>eid m q ie ce. Inr (10 * eid)),
      np_asarray = Inr,
      fit = (\<lambda>p X y. Inr (X, y)),
      predict = (\<lambda>model X. Inr (map (\<lambda>x. 0) X))\<rparr>"

text \<open>
  The example world before any run, the example collaborators with a classifier whose fit
  fails, and a mesh of three elements.
\<close>

definition demo_world :: "(nat list, nat list \<times> int list) world" where
  "demo_world = \<lparr>disk = demo_fs, trace = []\<rparr>"

definition demo_collab_unfit ::
  "(nat list, nat list \<times> int list, nat, unit, unit, unit, unit, nat, nat list) collab" where
  "demo_collab_unfit = demo_collab\<lparr>fit := (\<lambda>p X y. Inl ''fit'')\<rparr>"

definition demo_mesh :: "(nat, unit, unit) mesh" where
  "demo_mesh = \<lparr>elements = [1, 2, 3], geometry = (), element_neighbors = Some ()\<rparr>"

text \<open>
  A vehicle folder in which no node file has the element file of its index: the node file
  is \<^verbatim>\<open>first_mesh_x_first_mesh_7_NODE.csv\<close>, the element file
  \<^verbatim>\<open>first_mesh_7_ELEMENT.csv\<close>.
\<close>

definition odd_fs :: "(nat list, nat list \<times> int list) fs" where
  "odd_fs =
    [([''data_2''], Dir),
     ([''data_2'', ''01_''], Dir),
     ([''data_2'', ''01_'', ''cad_NODE.csv''], Table []),
     ([''data_2'', ''01_'', ''cad_ELEMENT.csv''], Table [0]),
     ([''data_2'', ''01_'', ''first_mesh_x_first_mesh_7_NODE.csv''], Table []),
     ([''data_2'', ''01_'', ''first_mesh_7_ELEMENT.csv''], Table [4, 5, 6])]"

section \<open>Properties of the labels\<close>

lemma severity_code_cases: "severity_code s = 0 \<or> severity_code s = 1 \<or> severity_code s = 2"
  by (cases s) simp_all

lemma train_label_policy:
  "train_label ie ce eid = severity_code (spec_policy (tags_of ie eid) (tags_of ce eid))"
  by (simp add: train_label_def spec_policy_def tags_of_def)

lemma eval_label_policy:
  "eval_label ie ce eid = severity_code (spec_policy (tags_of ie eid) (tags_of ce eid))"
  by (simp add: eval_label_def spec_policy_def tags_of_def)

text \<open>
  C1. The label is a function of the two tag sets of the element alone, and it is the
  policy of the specification: HIGH (2) exactly when the intrinsic tags hold
  BAD_ASPECT_RATIO or HIGH_SKEWNESS or the CAD tags hold CAD_DEVIATION_HIGH, whatever else
  is present; MEDIUM (1) exactly when none of these is present and the intrinsic tags hold
  BAD_TRANSITION; LOW (0) exactly when none of the four is present.  Both orchestrators
  compute it, and the result is always one of the three codes.
\<close>

theorem severity_label_total_policy:
  fixes ie ce :: "'e tagdict"
  shows "train_label ie ce eid = severity_code (spec_policy (tags_of ie eid) (tags_of ce eid))
    \<and> eval_label ie ce eid = severity_code (spec_policy (tags_of ie eid) (tags_of ce eid))
    \<and> (spec_policy I C = HIGH \<longleftrightarrow>
         ''BAD_ASPECT_RATIO'' \<in> I \<or> ''HIGH_SKEWNESS'' \<in> I \<or> ''CAD_DEVIATION_HIGH'' \<in> C)
    \<and> (spec_policy I C = MEDIUM \<longleftrightarrow>
         \<not> (''BAD_ASPECT_RATIO'' \<in> I \<or> ''HIGH_SKEWNESS'' \<in> I \<or> ''CAD_DEVIATION_HIGH'' \<in> C)
         \<and> ''BAD_TRANSITION'' \<in> I)
    \<and> (spec_policy I C = LOW \<longleftrightarrow>
         \<not> (''BAD_ASPECT_RATIO'' \<in> I \<or> ''HIGH_SKEWNESS'' \<in> I \<or> ''CAD_DEVIATION_HIGH'' \<in> C)
         \<and> ''BAD_TRANSITION'' \<notin> I)
    \<and> train_label ie ce eid \<in> {0, 1, 2}
    \<and> eval_label ie ce eid \<in> {0, 1, 2}"
proof -
  have codes: "train_label ie ce eid \<in> {0, 1, 2}" "eval_label ie ce eid \<in> {0, 1, 2}"
    using severity_code_cases [of "spec_policy (tags_of ie eid) (tags_of ce eid)"]
    by (auto simp: train_label_policy eval_label_policy)
  have high: "spec_policy I C = HIGH \<longleftrightarrow>
      ''BAD_ASPECT_RATIO'' \<in> I \<or> ''HIGH_SKEWNESS'' \<in> I \<or> ''CAD_DEVIATION_HIGH'' \<in> C"
    by (simp add: spec_policy_def)
  have medium: "spec_policy I C = MEDIUM \<longleftrightarrow>
      \<not> (''BAD_ASPECT_RATIO'' \<in> I \<or> ''HIGH_SKEWNESS'' \<in> I \<or> ''CAD_DEVIATION_HIGH'' \<in> C)
      \<and> ''BAD_TRANSITION'' \<in> I"
    by (simp add: spec_policy_def)
  have low: "spec_policy I C = LOW \<longleftrightarrow>
      \<not> (''BAD_ASPECT_RATIO'' \<in> I \<or> ''HIGH_SKEWNESS'' \<in> I \<or> ''CAD_DEVIATION_HIGH'' \<in> C)
      \<and> ''BAD_TRANSITION'' \<notin> I"
    by (simp add: spec_policy_def)
  show ?thesis
    using codes high medium low train_label_policy [of ie ce eid] eval_label_policy [of ie ce eid]
    by blast
qed

text \<open>
  The policy at the scenarios of the specification: an element tagged HIGH_SKEWNESS and
  BAD_TRANSITION is HIGH, one tagged BAD_TRANSITION alone is MEDIUM, one with no tags is LOW.
\<close>

theorem severity_label_total_policy_witness:
  "train_label [(7::nat) \<mapsto> [''HIGH_SKEWNESS'', ''BAD_TRANSITION'']] Map.empty 7 = 2
   \<and> eval_label [(7::nat) \<mapsto> [''BAD_TRANSITION'']] [7 \<mapsto> []] 7 = 1
   \<and> train_label [(7::nat) \<mapsto> []] [7 \<mapsto> []] 7 = 0
   \<and> spec_policy {''HIGH_SKEWNESS'', ''BAD_TRANSITION''} {} = HIGH"
  using severity_label_total_policy
    [of "[(7::nat) \<mapsto> [''HIGH_SKEWNESS'', ''BAD_TRANSITION'']]" Map.empty 7
        "{''HIGH_SKEWNESS'', ''BAD_TRANSITION''}" "{}"]
    severity_label_total_policy [of "[(7::nat) \<mapsto> [''BAD_TRANSITION'']]" "[7 \<mapsto> []]" 7 "{}" "{}"]
    severity_label_total_policy [of "[(7::nat) \<mapsto> []]" "[7 \<mapsto> []]" 7 "{}" "{}"]
  by (simp add: spec_policy_def tags_of_def dict_get_def)

text \<open>
  C8. The label rule of the evaluation orchestrator and the label rule of the training
  orchestrator are the same function: on every pair of tag dictionaries and every element
  they give the same label.
\<close>

theorem eval_label_eq_train_label:
  "(eval_label :: 'e tagdict \<Rightarrow> 'e tagdict \<Rightarrow> 'e \<Rightarrow> int) = train_label"
  by (intro ext) (simp add: eval_label_def train_label_def)

section \<open>Properties of mesh discovery\<close>



lemma ends_with_append [simp]: "ends_with s (xs @ s)"
  by (simp add: ends_with_def)







text \<open>
  The loop of \<^verbatim>\<open>find_first_meshes\<close> adds to the pairs it starts from, keeps the order of
  the node files, and gives every node file at most one pair.
\<close>

lemma first_mesh_loop_set:
  "set (first_mesh_loop d root ns pairs) =
     set pairs \<union> {(n, e). n \<in> set ns \<and> (\<exists>idx. re_search (path_name n) = Some idx
        \<and> e = joinpath root (''first_mesh_'' @ idx @ ''_ELEMENT.csv'') \<and> path_exists d e)}"
  by (induction ns arbitrary: pairs) (auto simp: Let_def split: option.splits)

lemma first_mesh_loop_fst:
  "map fst (first_mesh_loop d root ns pairs) =
     map fst pairs @ filter (\<lambda>n. case re_search (path_name n) of None \<Rightarrow> False
        | Some idx \<Rightarrow> path_exists d (joinpath root (''first_mesh_'' @ idx @ ''_ELEMENT.csv''))) ns"
  by (induction ns arbitrary: pairs) (auto simp: Let_def split: option.splits)

lemma first_mesh_loop_distinct:
  assumes "distinct ns"
  shows "distinct (first_mesh_loop d root ns [])"
proof -
  have "distinct (map fst (first_mesh_loop d root ns []))"
    using assms by (simp add: first_mesh_loop_fst)
  then show ?thesis by (rule distinct_map [THEN iffD1, THEN conjunct1])
qed

lemma split_slash_simple: "CHR ''/'' \<notin> set s \<Longrightarrow> split_slash s = [s]"
  by (induction s) auto

lemma joinpath_simple:
  assumes "CHR ''/'' \<notin> set s" "s \<noteq> []" "s \<noteq> ''.''"
  shows "joinpath p s = p @ [s]"
proof -
  obtain c cs where s: "s = c # cs" using assms(2) by (cases s) auto
  have "c \<noteq> CHR ''/''" using assms(1) s by auto
  then have "take 1 s \<noteq> ''/''" by (simp add: s)
  then show ?thesis
    using assms by (simp add: joinpath_def path_parts_def split_slash_simple)
qed

lemma digit_not_slash: "is_digit c \<Longrightarrow> c \<noteq> CHR ''/''"
  by (auto simp: is_digit_def)


lemma joinpath_elem_name:
  assumes "\<forall>c\<in>set idx. is_digit c"
  shows "joinpath p (''first_mesh_'' @ idx @ ''_ELEMENT.csv'')
           = p @ [''first_mesh_'' @ idx @ ''_ELEMENT.csv'']"
  using assms by (intro joinpath_simple) (auto dest: digit_not_slash)

lemma child_iff: "p \<noteq> [] \<and> butlast p = root \<longleftrightarrow> (\<exists>name. p = root @ [name])"
  by (metis append_butlast_last_id butlast_snoc snoc_eq_iff_butlast)

lemma path_name_child [simp]: "path_name (root @ [name]) = name"
  by (simp add: path_name_def)

lemma path_exists_iff: "path_exists d p \<longleftrightarrow> p \<in> fst ` set d"
  by (simp add: path_exists_def map_of_eq_None_iff)

lemma glob_node_set:
  "set (glob_node d root) =
     {p. is_dir d root \<and> (\<exists>name. p = root @ [name] \<and> fnmatch_node name) \<and> path_exists d p}"
  unfolding glob_node_def scandir_def
  by (auto simp: child_iff path_exists_iff)

lemma glob_node_distinct: "distinct (map fst d) \<Longrightarrow> distinct (glob_node d root)"
  by (simp add: glob_node_def scandir_def)

lemma find_first_meshes_set:
  "set (find_first_meshes d root) =
     {(n, e). \<exists>name idx. n = root @ [name] \<and> is_dir d root \<and> path_exists d n
        \<and> fnmatch_node name \<and> re_search name = Some idx
        \<and> e = joinpath root (''first_mesh_'' @ idx @ ''_ELEMENT.csv'') \<and> path_exists d e}"
  unfolding find_first_meshes_def
  by (auto simp: first_mesh_loop_set glob_node_set)

lemma find_first_meshes_sorted: "sorted (find_first_meshes d root)"
  by (simp add: find_first_meshes_def)

lemma find_first_meshes_distinct:
  "distinct (map fst d) \<Longrightarrow> distinct (find_first_meshes d root)"
  by (simp add: find_first_meshes_def first_mesh_loop_distinct glob_node_distinct)

lemma sorted_fst_of_sorted:
  fixes ps :: "('a::linorder \<times> 'b::linorder) list"
  shows "sorted ps \<Longrightarrow> sorted (map fst ps)"
  by (induction ps) (auto simp: less_eq_prod_def)

text \<open>
  Two listings of the same files, in whatever order the scan yields them, give the same
  result: a sorted list without repetitions is determined by its elements.
\<close>

lemma find_first_meshes_scan_order:
  assumes "distinct (map fst d)" "distinct (map fst d')" "set d = set d'"
  shows "find_first_meshes d root = find_first_meshes d' root"
proof -
  have m: "map_of d = map_of d'"
    using assms by (simp add: map_of_inject_set)
  have "set (find_first_meshes d root) = set (find_first_meshes d' root)"
    by (simp add: find_first_meshes_set is_dir_def path_exists_def m)
  then show ?thesis
    using assms(1,2)
    by (intro sorted_distinct_set_unique find_first_meshes_sorted find_first_meshes_distinct)
qed


lemma main_no_first_meshes:
  assumes "path_exists (disk w) (joinpath [''data_2''] vehicle_id)"
    and "load_mesh c (disk w) (joinpath (joinpath [''data_2''] vehicle_id) ''cad_NODE.csv'')
           (joinpath (joinpath [''data_2''] vehicle_id) ''cad_ELEMENT.csv'') = Inr cad"
    and "find_first_meshes (disk w) (joinpath [''data_2''] vehicle_id) = []"
  shows "fst (main c vehicle_id w) = Inl NoFirstMeshes"
  using assms by (simp add: main_def build_training_set_def load_mesh_io_def call_def Let_def)

text \<open>
  C4. Discovery does not return exactly the pairs of a node file and the element file of the
  same index.  The glob asks for names of the form \<^verbatim>\<open>first_mesh_<idx>_NODE.csv\<close>, but
  the pattern of line 31 is searched for anywhere in the name instead of being matched
  against the whole of it, and its dot stands for any character, so that the index it
  extracts need not be the one between \<^verbatim>\<open>first_mesh_\<close> and \<^verbatim>\<open>_NODE.csv\<close>.  In a
  folder that holds \<^verbatim>\<open>first_mesh_x_first_mesh_7_NODE.csv\<close> and
  \<^verbatim>\<open>first_mesh_7_ELEMENT.csv\<close>, and neither \<^verbatim>\<open>first_mesh_7_NODE.csv\<close> nor
  \<^verbatim>\<open>first_mesh_x_first_mesh_7_ELEMENT.csv\<close>, no node file has the element file of its
  index; discovery returns the two files as a pair all the same, and training, instead of
  failing for want of meshes, runs on them.  The pattern likewise reads the index 7 out of
  \<^verbatim>\<open>first_mesh_7_NODExcsv_NODE.csv\<close>.
\<close>

theorem find_first_meshes_pairs_other_index:
  "find_first_meshes odd_fs [''data_2'', ''01_''] =
     [([''data_2'', ''01_'', ''first_mesh_x_first_mesh_7_NODE.csv''],
       [''data_2'', ''01_'', ''first_mesh_7_ELEMENT.csv''])]
   \<and> \<not> path_exists odd_fs [''data_2'', ''01_'', ''first_mesh_7_NODE.csv'']
   \<and> \<not> path_exists odd_fs [''data_2'', ''01_'', ''first_mesh_x_first_mesh_7_ELEMENT.csv'']
   \<and> fst (main demo_collab ''01_'' \<lparr>disk = odd_fs, trace = []\<rparr>) = Inr ()
   \<and> fnmatch_node ''first_mesh_7_NODExcsv_NODE.csv''
   \<and> re_search ''first_mesh_7_NODExcsv_NODE.csv'' = Some ''7''"
  by code_simp




section \<open>Properties of dataset building\<close>

text \<open>Loading and analysing meshes leaves the file system alone.\<close>

lemma load_mesh_io_disk: "load_mesh_io c n e w = (r, w') \<Longrightarrow> disk w' = disk w"
  by (auto simp: load_mesh_io_def)

lemma load_mesh_io_Inr:
  "load_mesh_io c n e w = (Inr m, w') \<Longrightarrow> load_mesh c (disk w) n e = Inr m"
  by (auto simp: load_mesh_io_def call_def split: sum.splits)

lemma call_Inr: "call r k = Inr v \<longleftrightarrow> (\<exists>u. r = Inr u \<and> k u = Inr v)"
  by (cases r) (simp_all add: call_def)

lemma quality_tags_elements:
  "quality_tags c cad loaded = Inr (mesh, metrics, ie, ce) \<Longrightarrow> elements mesh = elements loaded"
  by (auto simp: quality_tags_def call_Inr Let_def)

lemma train_element_loop_rows:
  "train_element_loop c mesh metrics ie ce es (X0, y0) = Inr (X, y) \<Longrightarrow>
     map Inr X = map Inr X0 @ map (\<lambda>eid. build_feature_vector c eid mesh metrics ie ce) es
     \<and> y = y0 @ map (train_label ie ce) es"
proof (induction es arbitrary: X0 y0)
  case Nil
  then show ?case by simp
next
  case (Cons eid es)
  from Cons.prems obtain features where
    f: "build_feature_vector c eid mesh metrics ie ce = Inr features" and
    rest: "train_element_loop c mesh metrics ie ce es
             (X0 @ [features], y0 @ [train_label ie ce eid]) = Inr (X, y)"
    by (auto simp: call_Inr)
  from Cons.IH [OF rest] f show ?case by simp
qed

lemma train_element_loop_ok:
  "\<forall>e\<in>set es. \<exists>f. build_feature_vector c e mesh metrics ie ce = Inr f \<Longrightarrow>
     \<exists>X y. train_element_loop c mesh metrics ie ce es acc = Inr (X, y)"
proof (induction es arbitrary: acc)
  case Nil
  then show ?case by (cases acc) simp
next
  case (Cons eid es)
  then obtain f where f: "build_feature_vector c eid mesh metrics ie ce = Inr f"
    by auto
  obtain X0 y0 where acc: "acc = (X0, y0)" by (cases acc)
  from Cons.IH [of "(X0 @ [f], y0 @ [train_label ie ce eid])"] Cons.prems
  show ?case by (simp add: acc f call_def)
qed

lemma eval_element_loop_ok:
  "\<forall>e\<in>set es. \<exists>f. build_feature_vector c e mesh metrics ie ce = Inr f \<Longrightarrow>
     \<exists>X y. eval_element_loop c mesh metrics ie ce es acc = Inr (X, y)"
proof (induction es arbitrary: acc)
  case Nil
  then show ?case by (cases acc) simp
next
  case (Cons eid es)
  then obtain f where f: "build_feature_vector c eid mesh metrics ie ce = Inr f"
    by auto
  obtain X0 y0 where acc: "acc = (X0, y0)" by (cases acc)
  from Cons.IH [of "(X0 @ [f], y0 @ [eval_label ie ce eid])"] Cons.prems
  show ?case by (simp add: acc f call_def)
qed

lemma eval_element_loop_rows:
  "eval_element_loop c mesh metrics ie ce es (X0, y0) = Inr (X, y) \<Longrightarrow>
     map Inr X = map Inr X0 @ map (\<lambda>eid. build_feature_vector c eid mesh metrics ie ce) es
     \<and> y = y0 @ map (eval_label ie ce) es"
proof (induction es arbitrary: X0 y0)
  case Nil
  then show ?case by simp
next
  case (Cons eid es)
  from Cons.prems obtain feat where
    f: "build_feature_vector c eid mesh metrics ie ce = Inr feat" and
    rest: "eval_element_loop c mesh metrics ie ce es
             (X0 @ [feat], y0 @ [eval_label ie ce eid]) = Inr (X, y)"
    by (auto simp: call_Inr)
  from Cons.IH [OF rest] f show ?case by simp
qed

lemma dataset_rows_fst: "map fst (dataset_rows c (mesh, metrics, ie, ce)) = elements mesh"
  by (simp add: dataset_rows_def comp_def)

lemma mesh_loop_disk: "mesh_loop c cad pairs acc w = (r, w') \<Longrightarrow> disk w' = disk w"
proof (induction pairs arbitrary: acc w)
  case Nil
  then show ?case by simp
next
  case (Cons p pairs)
  obtain n e where p: "p = (n, e)" by (cases p)
  obtain r1 w1 where l: "load_mesh_io c n e w = (r1, w1)" by (cases "load_mesh_io c n e w")
  have d1: "disk w1 = disk w" using l by (rule load_mesh_io_disk)
  show ?case
    using Cons.prems Cons.IH d1
    by (auto simp: p l split: sum.splits prod.splits)
qed

lemma mesh_loop_rows:
  "mesh_loop c cad pairs (X0, y0) w = (Inr (X, y), w') \<Longrightarrow>
     \<exists>meshes tagged.
       map (\<lambda>(n, e). load_mesh c (disk w) n e) pairs = map Inr meshes
     \<and> map (quality_tags c cad) meshes = map Inr tagged
     \<and> map elements meshes = map (elements \<circ> fst) tagged
     \<and> map Inr X = map Inr X0 @ map (fst \<circ> snd) (concat (map (dataset_rows c) tagged))
     \<and> y = y0 @ map (snd \<circ> snd) (concat (map (dataset_rows c) tagged))"
proof (induction pairs arbitrary: X0 y0 w)
  case Nil
  then show ?case by simp
next
  case (Cons p pairs)
  obtain n e where p: "p = (n, e)" by (cases p)
  obtain r1 w1 where l: "load_mesh_io c n e w = (r1, w1)" by (cases "load_mesh_io c n e w")
  have d1: "disk w1 = disk w" using l by (rule load_mesh_io_disk)
  from Cons.prems obtain loaded where r1: "r1 = Inr loaded"
    by (cases r1) (simp_all add: p l)
  have ld: "load_mesh c (disk w) n e = Inr loaded"
    using l r1 load_mesh_io_Inr by blast
  from Cons.prems obtain mesh metrics ie ce where
    q: "quality_tags c cad loaded = Inr (mesh, metrics, ie, ce)"
    by (cases "quality_tags c cad loaded") (auto simp: p l r1)
  from Cons.prems obtain X1 y1 where
    el: "train_element_loop c mesh metrics ie ce (elements mesh) (X0, y0) = Inr (X1, y1)"
    by (cases "train_element_loop c mesh metrics ie ce (elements mesh) (X0, y0)")
       (auto simp: p l r1 q)
  have rest: "mesh_loop c cad pairs (X1, y1) w1 = (Inr (X, y), w')"
    using Cons.prems by (simp add: p l r1 q el)
  from Cons.IH [OF rest] obtain meshes tagged where
    ih: "map (\<lambda>(n, e). load_mesh c (disk w1) n e) pairs = map Inr meshes"
        "map (quality_tags c cad) meshes = map Inr tagged"
        "map elements meshes = map (elements \<circ> fst) tagged"
        "map Inr X = map Inr X1 @ map (fst \<circ> snd) (concat (map (dataset_rows c) tagged))"
        "y = y1 @ map (snd \<circ> snd) (concat (map (dataset_rows c) tagged))"
    by blast
  have rows: "map Inr X1 = map Inr X0 @ map (fst \<circ> snd) (dataset_rows c (mesh, metrics, ie, ce))"
             "y1 = y0 @ map (snd \<circ> snd) (dataset_rows c (mesh, metrics, ie, ce))"
    using train_element_loop_rows [OF el] by (simp_all add: dataset_rows_def comp_def)
  have el_same: "elements loaded = elements mesh"
    using quality_tags_elements [OF q] by simp
  let ?meshes = "loaded # meshes" and ?tagged = "(mesh, metrics, ie, ce) # tagged"
  have "map (\<lambda>(n, e). load_mesh c (disk w) n e) (p # pairs) = map Inr ?meshes"
    using ih(1) ld by (simp add: p d1)
  moreover have "map (quality_tags c cad) ?meshes = map Inr ?tagged"
    using ih(2) q by simp
  moreover have "map elements ?meshes = map (elements \<circ> fst) ?tagged"
    using ih(3) el_same by simp
  moreover have "map Inr X = map Inr X0 @ map (fst \<circ> snd) (concat (map (dataset_rows c) ?tagged))"
    using ih(4) rows(1) by simp
  moreover have "y = y0 @ map (snd \<circ> snd) (concat (map (dataset_rows c) ?tagged))"
    using ih(5) rows(2) by simp
  ultimately show ?case by blast
qed

lemma build_training_set_disk:
  "build_training_set c vehicle_id w = (r, w') \<Longrightarrow> disk w' = disk w"
  unfolding build_training_set_def Let_def
  by (auto split: if_splits sum.splits prod.splits
           dest!: load_mesh_io_disk mesh_loop_disk)

lemma build_training_set_Inr:
  assumes "build_training_set c vehicle_id w = (Inr (X, y), w')"
  shows "\<exists>cad X_all w1 w2.
      path_exists (disk w) (joinpath [''data_2''] vehicle_id)
    \<and> load_mesh c (disk w) (joinpath (joinpath [''data_2''] vehicle_id) ''cad_NODE.csv'')
          (joinpath (joinpath [''data_2''] vehicle_id) ''cad_ELEMENT.csv'') = Inr cad
    \<and> disk w1 = disk w
    \<and> find_first_meshes (disk w) (joinpath [''data_2''] vehicle_id) \<noteq> []
    \<and> mesh_loop c cad (find_first_meshes (disk w) (joinpath [''data_2''] vehicle_id)) ([], []) w1
         = (Inr (X_all, y), w2)
    \<and> np_asarray c X_all = Inr X"
proof -
  let ?root = "joinpath [''data_2''] vehicle_id"
  have ex: "path_exists (disk w) ?root"
    using assms by (auto simp: build_training_set_def Let_def split: if_splits)
  obtain r1 w1 where l: "load_mesh_io c (joinpath ?root ''cad_NODE.csv'')
      (joinpath ?root ''cad_ELEMENT.csv'') w = (r1, w1)"
    by (cases "load_mesh_io c (joinpath ?root ''cad_NODE.csv'') (joinpath ?root ''cad_ELEMENT.csv'') w")
  have d1: "disk w1 = disk w" using l by (rule load_mesh_io_disk)
  from assms ex l obtain cad where r1: "r1 = Inr cad"
    by (cases r1) (simp_all add: build_training_set_def Let_def)
  have ld: "load_mesh c (disk w) (joinpath ?root ''cad_NODE.csv'')
      (joinpath ?root ''cad_ELEMENT.csv'') = Inr cad"
    using l r1 load_mesh_io_Inr by blast
  have ne: "find_first_meshes (disk w) ?root \<noteq> []"
    using assms ex l r1 d1 by (auto simp: build_training_set_def Let_def split: if_splits)
  obtain r2 w2 where ml: "mesh_loop c cad (find_first_meshes (disk w) ?root) ([], []) w1 = (r2, w2)"
    by (cases "mesh_loop c cad (find_first_meshes (disk w) ?root) ([], []) w1")
  from assms ex l r1 d1 ne ml obtain X_all y_all where r2: "r2 = Inr (X_all, y_all)"
    by (cases r2) (auto simp: build_training_set_def Let_def)
  have "call (np_asarray c X_all) (\<lambda>X. Inr (X, y_all)) = Inr (X, y)"
    using assms ex l r1 d1 ne ml r2 by (simp add: build_training_set_def Let_def)
  then have "np_asarray c X_all = Inr X" "y_all = y"
    by (auto simp: call_Inr)
  with ex ld d1 ne ml r2 show ?thesis by blast
qed

text \<open>
  C2. An element without an entry in a tag dictionary is labelled as if its entry were the
  empty list, in training and in evaluation, and an element with no entry in either
  dictionary is LOW (0).  The loops over the elements fail only where the feature assembler
  fails: they succeed whenever it returns a vector for every element, whatever keys the two
  dictionaries hold.
\<close>

theorem missing_tag_entries_are_empty:
  fixes ie ce :: "'e tagdict"
  shows "(ie eid = None \<longrightarrow>
            train_label ie ce eid = train_label (ie(eid \<mapsto> [])) ce eid
          \<and> eval_label ie ce eid = eval_label (ie(eid \<mapsto> [])) ce eid)
    \<and> (ce eid = None \<longrightarrow>
            train_label ie ce eid = train_label ie (ce(eid \<mapsto> [])) eid
          \<and> eval_label ie ce eid = eval_label ie (ce(eid \<mapsto> [])) eid)
    \<and> (ie eid = None \<and> ce eid = None \<longrightarrow>
            train_label ie ce eid = 0 \<and> eval_label ie ce eid = 0)
    \<and> ((\<forall>e\<in>set es. \<exists>f. build_feature_vector c e mesh metrics ie ce = Inr f) \<longrightarrow>
            (\<exists>X y. train_element_loop c mesh metrics ie ce es acc = Inr (X, y))
          \<and> (\<exists>X y. eval_element_loop c mesh metrics ie ce es acc' = Inr (X, y)))"
proof -
  have a: "ie eid = None \<longrightarrow>
            train_label ie ce eid = train_label (ie(eid \<mapsto> [])) ce eid
          \<and> eval_label ie ce eid = eval_label (ie(eid \<mapsto> [])) ce eid"
    by (auto simp: train_label_def eval_label_def dict_get_def split: option.splits)
  have b: "ce eid = None \<longrightarrow>
            train_label ie ce eid = train_label ie (ce(eid \<mapsto> [])) eid
          \<and> eval_label ie ce eid = eval_label ie (ce(eid \<mapsto> [])) eid"
    by (auto simp: train_label_def eval_label_def dict_get_def split: option.splits)
  have c: "ie eid = None \<and> ce eid = None \<longrightarrow>
            train_label ie ce eid = 0 \<and> eval_label ie ce eid = 0"
    by (auto simp: train_label_def eval_label_def dict_get_def)
  show ?thesis
    using a b c train_element_loop_ok [of es c mesh metrics ie ce acc]
      eval_element_loop_ok [of es c mesh metrics ie ce acc']
    by blast
qed

text \<open>Element 3 and a mesh of three elements, with both dictionaries empty.\<close>

theorem missing_tag_entries_are_empty_witness:
  "train_label Map.empty Map.empty (3::nat) = train_label [(3::nat) \<mapsto> []] Map.empty 3
   \<and> eval_label Map.empty Map.empty (3::nat) = eval_label Map.empty [(3::nat) \<mapsto> []] 3
   \<and> train_label Map.empty Map.empty (3::nat) = 0
   \<and> eval_label Map.empty Map.empty (3::nat) = 0
   \<and> (\<exists>X y. train_element_loop demo_collab demo_mesh () Map.empty Map.empty [1, 2, 3] ([], [])
          = Inr (X, y))
   \<and> (\<exists>X y. eval_element_loop demo_collab demo_mesh () Map.empty Map.empty [1, 2, 3] ([], [])
          = Inr (X, y))"
proof -
  have h: "\<forall>e\<in>set [1, 2, 3].
      \<exists>f. build_feature_vector demo_collab e demo_mesh () Map.empty Map.empty = Inr f"
    by (simp add: demo_collab_def)
  show ?thesis
    using h missing_tag_entries_are_empty
      [of Map.empty "3::nat" Map.empty "[1, 2, 3]" demo_collab demo_mesh "()" "([], [])" "([], [])"]
    by blast
qed

text \<open>
  C3. Where training gets as far as its two arrays, there are the meshes loaded from the
  discovered pairs, in the order of discovery, and for each its tags, such that the rows of
  the datasets of these meshes, one after the other, are: in their first component the
  elements of the meshes in their own order, in their second the feature rows handed to the
  array conversion, in their third the labels.  So row i of the features and label i
  belong to the same element, nothing is reordered or dropped, and the number of rows is the
  sum of the element counts of the meshes.
\<close>

theorem training_set_rows_aligned:
  assumes "fst (build_training_set c vehicle_id w) = Inr (X, y)"
  shows "\<exists>cad X_all meshes tagged.
      np_asarray c X_all = Inr X
    \<and> map (\<lambda>(node_csv, elem_csv). load_mesh c (disk w) node_csv elem_csv)
          (find_first_meshes (disk w) (joinpath [''data_2''] vehicle_id)) = map Inr meshes
    \<and> map (quality_tags c cad) meshes = map Inr tagged
    \<and> map fst (concat (map (dataset_rows c) tagged)) = concat (map elements meshes)
    \<and> map (fst \<circ> snd) (concat (map (dataset_rows c) tagged)) = map Inr X_all
    \<and> map (snd \<circ> snd) (concat (map (dataset_rows c) tagged)) = y
    \<and> length X_all = sum_list (map (\<lambda>mesh. length (elements mesh)) meshes)
    \<and> length y = length X_all"
proof -
  let ?pairs = "find_first_meshes (disk w) (joinpath [''data_2''] vehicle_id)"
  from assms have "build_training_set c vehicle_id w
      = (Inr (X, y), snd (build_training_set c vehicle_id w))"
    by (metis prod.collapse)
  from build_training_set_Inr [OF this] obtain cad X_all w1 w2 where
    d1: "disk w1 = disk w" and
    ml: "mesh_loop c cad ?pairs ([], []) w1 = (Inr (X_all, y), w2)" and
    arr: "np_asarray c X_all = Inr X"
    by blast
  from mesh_loop_rows [OF ml] obtain meshes tagged where
    m: "map (\<lambda>(n, e). load_mesh c (disk w) n e) ?pairs = map Inr meshes"
       "map (quality_tags c cad) meshes = map Inr tagged"
       "map elements meshes = map (elements \<circ> fst) tagged"
       "map Inr X_all = map (fst \<circ> snd) (concat (map (dataset_rows c) tagged))"
       "y = map (snd \<circ> snd) (concat (map (dataset_rows c) tagged))"
    by (auto simp: d1)
  let ?rows = "concat (map (dataset_rows c) tagged)"
  have "map fst (dataset_rows c t) = elements (fst t)" for t
    by (cases t) (simp add: dataset_rows_fst)
  then have "map fst ?rows = concat (map (elements \<circ> fst) tagged)"
    by (simp add: map_concat comp_def)
  then have ids: "map fst ?rows = concat (map elements meshes)"
    by (simp add: m(3))
  have xl: "length X_all = length ?rows"
    using arg_cong [OF m(4), of length] by simp
  also have "\<dots> = length (map fst ?rows)"
    by simp
  also have "\<dots> = sum_list (map (\<lambda>mesh. length (elements mesh)) meshes)"
    by (simp only: ids length_concat map_map comp_def)
  finally have len: "length X_all = sum_list (map (\<lambda>mesh. length (elements mesh)) meshes)" .
  have ylen: "length y = length X_all"
    using xl by (simp add: m(5))
  show ?thesis
    using arr m(1,2) ids m(4) [symmetric] m(5) [symmetric] len ylen by blast
qed

text \<open>Vehicle \<^verbatim>\<open>01_\<close>: meshes of two and of three elements, five rows.\<close>

theorem training_set_rows_aligned_witness:
  "fst (build_training_set demo_collab ''01_'' demo_world)
     = Inr ([10, 20, 40, 50, 60], [1, 0, 2, 2, 0])
   \<and> (\<exists>meshes.
         map (\<lambda>(node_csv, elem_csv). load_mesh demo_collab (disk demo_world) node_csv elem_csv)
           (find_first_meshes (disk demo_world) (joinpath [''data_2''] ''01_'')) = map Inr meshes
       \<and> sum_list (map (\<lambda>mesh. length (elements mesh)) meshes) = 5)"
proof -
  have run: "fst (build_training_set demo_collab ''01_'' demo_world)
     = Inr ([10, 20, 40, 50, 60], [1, 0, 2, 2, 0])"
    by code_simp
  from training_set_rows_aligned [OF run] obtain X_all meshes where
    arr: "np_asarray demo_collab X_all = Inr [10, 20, 40, 50, 60]" and
    ld: "map (\<lambda>(node_csv, elem_csv). load_mesh demo_collab (disk demo_world) node_csv elem_csv)
           (find_first_meshes (disk demo_world) (joinpath [''data_2''] ''01_'')) = map Inr meshes" and
    len: "length X_all = sum_list (map (\<lambda>mesh. length (elements mesh)) meshes)"
    by blast
  from arr have "X_all = [10, 20, 40, 50, 60]"
    by (simp add: demo_collab_def)
  with len have "sum_list (map (\<lambda>mesh. length (elements mesh)) meshes) = 5"
    by simp
  with run ld show ?thesis by blast
qed

section \<open>Properties of the orchestrators\<close>



lemma evaluate_disk: "disk (snd (evaluate c vehicle_id mesh_idx w)) = disk w"
  unfolding evaluate_def Let_def
  by (auto simp: load_mesh_io_def split: sum.splits prod.splits)



lemma map_of_overwrite:
  "map_of d p \<noteq> None \<Longrightarrow>
     map_of (map (\<lambda>(q, x). if q = p then (q, v) else (q, x)) d) p = Some v"
  by (induction d) (auto split: if_splits)

lemma joblib_dump_lookup:
  "joblib_dump model p d = Inr d' \<Longrightarrow> map_of d' p = Some (Pickle model)"
  unfolding joblib_dump_def
  by (auto simp: map_of_overwrite map_add_def split: option.splits fobj.splits)

lemma main_build_failed:
  assumes "fst (build_training_set c vehicle_id w) = Inl e"
  shows "fst (main c vehicle_id w) = Inl e \<and> disk (snd (main c vehicle_id w)) = disk w"
proof -
  obtain w2 where b: "build_training_set c vehicle_id w = (Inl e, w2)"
    using assms by (metis prod.collapse)
  have "disk w2 = disk w" using b by (rule build_training_set_disk)
  then show ?thesis by (simp add: main_def b)
qed

lemma main_fit_failed:
  assumes "fst (build_training_set c vehicle_id w) = Inr (X, y)"
    and "fit c train_params X y = Inl x"
  shows "fst (main c vehicle_id w) = Inl (Raised x) \<and> disk (snd (main c vehicle_id w)) = disk w"
proof -
  obtain w2 where b: "build_training_set c vehicle_id w = (Inr (X, y), w2)"
    using assms(1) by (metis prod.collapse)
  have "disk w2 = disk w" using b by (rule build_training_set_disk)
  then show ?thesis by (simp add: main_def b assms(2) call_def Let_def)
qed

lemma main_disk_changed:
  assumes "disk (snd (main c vehicle_id w)) \<noteq> disk w"
  shows "\<exists>X y model. fst (build_training_set c vehicle_id w) = Inr (X, y)
           \<and> fit c train_params X y = Inr model"
proof (cases "fst (build_training_set c vehicle_id w)")
  case (Inl e)
  with main_build_failed [OF Inl] assms show ?thesis by simp
next
  case (Inr Xy)
  obtain X y where Xy: "Xy = (X, y)" by (cases Xy)
  show ?thesis
  proof (cases "fit c train_params X y")
    case (Inl x)
    with main_fit_failed [of c vehicle_id w X y x] Inr Xy assms show ?thesis by simp
  next
    case fitted: (Inr model)
    with Inr Xy show ?thesis by blast
  qed
qed

lemma main_succeeded:
  assumes "fst (main c vehicle_id w) = Inr ()"
  shows "\<exists>X y model.
      fst (build_training_set c vehicle_id w) = Inr (X, y)
    \<and> fit c train_params X y = Inr model
    \<and> map_of (disk (snd (main c vehicle_id w)))
        (joinpath (joinpath [''models''] vehicle_id) ''severity_model.pkl'') = Some (Pickle model)
    \<and> trace (snd (main c vehicle_id w)) =
        trace (snd (build_training_set c vehicle_id w))
        @ [Fit, MkDir (joinpath [''models''] vehicle_id),
           Dump (joinpath (joinpath [''models''] vehicle_id) ''severity_model.pkl'')]"
proof -
  obtain r2 w2 where b: "build_training_set c vehicle_id w = (r2, w2)"
    by (cases "build_training_set c vehicle_id w")
  from assms b obtain X y where r2: "r2 = Inr (X, y)"
    by (cases r2) (auto simp: main_def)
  from assms b r2 obtain model where f: "fit c train_params X y = Inr model"
    by (cases "fit c train_params X y") (auto simp: main_def call_def Let_def)
  let ?out = "joinpath [''models''] vehicle_id"
  let ?mp = "joinpath ?out ''severity_model.pkl''"
  from assms b r2 f obtain d5 where mk: "mkdir_parents (disk w2) ?out = Inr d5"
    by (cases "mkdir_parents (disk w2) ?out") (auto simp: main_def call_def Let_def)
  from assms b r2 f mk obtain d6 where dump: "joblib_dump model ?mp d5 = Inr d6"
    by (cases "joblib_dump model ?mp d5") (auto simp: main_def call_def Let_def)
  have res: "main c vehicle_id w =
      (Inr (), w2\<lparr>trace := trace w2 @ [Fit, MkDir ?out, Dump ?mp], disk := d6\<rparr>)"
    by (simp add: main_def b r2 f mk dump call_def Let_def)
  show ?thesis
    using joblib_dump_lookup [OF dump] by (simp add: res b r2 f)
qed

text \<open>
  C10. Where building the training set fails, or the fit fails, training fails with that
  error and the file system is unchanged.  Where a run changes the file system at all, the
  training set had been built and the fit had returned a model; and a run that succeeds
  ends with the fit, then the creation of the directory, then the dump, in this order.
\<close>

theorem main_persists_after_fit:
  "(fst (build_training_set c vehicle_id w) = Inl e \<longrightarrow>
       fst (main c vehicle_id w) = Inl e \<and> disk (snd (main c vehicle_id w)) = disk w)
   \<and> (fst (build_training_set c vehicle_id w) = Inr (X, y) \<and> fit c train_params X y = Inl x \<longrightarrow>
       fst (main c vehicle_id w) = Inl (Raised x) \<and> disk (snd (main c vehicle_id w)) = disk w)
   \<and> (disk (snd (main c vehicle_id w)) \<noteq> disk w \<longrightarrow>
       (\<exists>X' y' model. fst (build_training_set c vehicle_id w) = Inr (X', y')
           \<and> fit c train_params X' y' = Inr model))
   \<and> (fst (main c vehicle_id w) = Inr () \<longrightarrow>
       trace (snd (main c vehicle_id w)) =
         trace (snd (build_training_set c vehicle_id w))
         @ [Fit, MkDir (joinpath [''models''] vehicle_id),
            Dump (joinpath (joinpath [''models''] vehicle_id) ''severity_model.pkl'')])"
  using main_build_failed [of c vehicle_id w e] main_fit_failed [of c vehicle_id w X y x]
    main_disk_changed [of c vehicle_id w] main_succeeded [of c vehicle_id w]
  by blast

text \<open>
  A vehicle without meshes, a classifier whose fit fails, and a run that succeeds.
\<close>

theorem main_persists_after_fit_witness:
  "fst (build_training_set demo_collab ''02_'' demo_world) = Inl NoFirstMeshes
   \<and> fst (main demo_collab ''02_'' demo_world) = Inl NoFirstMeshes
   \<and> disk (snd (main demo_collab ''02_'' demo_world)) = disk demo_world
   \<and> fit demo_collab_unfit train_params [10, 20, 40, 50, 60] [1, 0, 2, 2, 0] = Inl ''fit''
   \<and> fst (main demo_collab_unfit ''01_'' demo_world) = Inl (Raised ''fit'')
   \<and> disk (snd (main demo_collab_unfit ''01_'' demo_world)) = disk demo_world
   \<and> disk (snd (main demo_collab ''01_'' demo_world)) \<noteq> disk demo_world
   \<and> fst (main demo_collab ''01_'' demo_world) = Inr ()
   \<and> trace (snd (main demo_collab ''01_'' demo_world)) =
       trace (snd (build_training_set demo_collab ''01_'' demo_world))
       @ [Fit, MkDir (joinpath [''models''] ''01_''),
          Dump (joinpath (joinpath [''models''] ''01_'') ''severity_model.pkl'')]"
proof -
  have a: "fst (build_training_set demo_collab ''02_'' demo_world) = Inl NoFirstMeshes"
    by code_simp
  have b: "fst (build_training_set demo_collab_unfit ''01_'' demo_world)
             = Inr ([10, 20, 40, 50, 60], [1, 0, 2, 2, 0])"
    "fit demo_collab_unfit train_params [10, 20, 40, 50, 60] [1, 0, 2, 2, 0] = Inl ''fit''"
    by code_simp+
  have c: "disk (snd (main demo_collab ''01_'' demo_world)) \<noteq> disk demo_world"
    by code_simp
  have d: "fst (main demo_collab ''01_'' demo_world) = Inr ()"
    by code_simp
  show ?thesis
    using a b c d
      main_persists_after_fit [of demo_collab "''02_''" demo_world NoFirstMeshes]
      main_persists_after_fit [of demo_collab_unfit "''01_''" demo_world _
         "[10, 20, 40, 50, 60]" "[1, 0, 2, 2, 0]" "''fit''"]
      main_persists_after_fit [of demo_collab "''01_''" demo_world]
    by blast
qed

text \<open>
  C9. Two training runs, for any vehicles and in any worlds, that build the same arrays
  and succeed have persisted the same model: the model that the classifier, given 200
  trees, depth 20, one job and seed 42, fits to those arrays.
\<close>

theorem training_reproducible:
  assumes "fst (build_training_set c v1 w1) = Inr (X, y)"
    and "fst (build_training_set c v2 w2) = Inr (X, y)"
    and "fst (main c v1 w1) = Inr ()"
    and "fst (main c v2 w2) = Inr ()"
  shows "\<exists>model.
      fit c \<lparr>n_estimators = 200, max_depth = 20, n_jobs = 1, random_state = 42\<rparr> X y = Inr model
    \<and> map_of (disk (snd (main c v1 w1)))
        (joinpath (joinpath [''models''] v1) ''severity_model.pkl'') = Some (Pickle model)
    \<and> map_of (disk (snd (main c v2 w2)))
        (joinpath (joinpath [''models''] v2) ''severity_model.pkl'') = Some (Pickle model)"
  using main_succeeded [OF assms(3)] main_succeeded [OF assms(4)] assms(1,2)
  by (auto simp: train_params_def)

text \<open>Training vehicle \<^verbatim>\<open>01_\<close> twice, the second time over the model of the first.\<close>

theorem training_reproducible_witness:
  "fst (main demo_collab ''01_'' demo_world) = Inr ()
   \<and> fst (main demo_collab ''01_'' (snd (main demo_collab ''01_'' demo_world))) = Inr ()
   \<and> (\<exists>model.
        fit demo_collab \<lparr>n_estimators = 200, max_depth = 20, n_jobs = 1, random_state = 42\<rparr>
          [10, 20, 40, 50, 60] [1, 0, 2, 2, 0] = Inr model
      \<and> map_of (disk (snd (main demo_collab ''01_'' demo_world)))
          (joinpath (joinpath [''models''] ''01_'') ''severity_model.pkl'') = Some (Pickle model)
      \<and> map_of (disk (snd (main demo_collab ''01_'' (snd (main demo_collab ''01_'' demo_world)))))
          (joinpath (joinpath [''models''] ''01_'') ''severity_model.pkl'') = Some (Pickle model))"
proof -
  have b1: "fst (build_training_set demo_collab ''01_'' demo_world)
             = Inr ([10, 20, 40, 50, 60], [1, 0, 2, 2, 0])"
    by code_simp
  have b2: "fst (build_training_set demo_collab ''01_'' (snd (main demo_collab ''01_'' demo_world)))
             = Inr ([10, 20, 40, 50, 60], [1, 0, 2, 2, 0])"
    by code_simp
  have m1: "fst (main demo_collab ''01_'' demo_world) = Inr ()"
    by code_simp
  have m2: "fst (main demo_collab ''01_'' (snd (main demo_collab ''01_'' demo_world))) = Inr ()"
    by code_simp
  show ?thesis
    using m1 m2 training_reproducible [OF b1 b2 m1 m2] by blast
qed

end
